theory Spec2Isabelle
  imports Main
begin

section \<open>Values, exceptions and results\<close>

text \<open>
  The facade of \<^verbatim>\<open>main.py\<close> passes Python values between its caller and three
  collaborator objects.  Dictionaries are association lists in insertion order (the order
  of the dict displays in the source); \<open>exn\<close> stands for instances of \<^verbatim>\<open>Exception\<close>,
  the class that every \<^verbatim>\<open>except\<close> clause of the file catches.  Writes to the logger
  and to standard output are taken to succeed and are not part of the model.
\<close>

datatype pyval =
    VNone
  | VBool bool
  | VStr string
  | VDict "(string \<times> pyval) list"

type_synonym user_context = "(string \<times> pyval) list"

datatype exn =
    NameError string
  | AttributeError string
  | KeyError string
  | TypeError string
  | Raised string

text \<open>
  Modelled from the spec: the class \<^verbatim>\<open>ComplianceResult\<close> of \<^verbatim>\<open>core/compliance.py\<close>
  is not in the repository; the spec gives it a boolean compliance flag and an optional
  reason string.
\<close>

record compliance_result =
  is_compliant :: bool
  reason :: "string option"

text \<open>What an f-string makes of the reason: \<^verbatim>\<open>str(None)\<close> is \<^verbatim>\<open>'None'\<close>.\<close>

fun format_reason :: "string option \<Rightarrow> string" where
  "format_reason None = ''None''"
| "format_reason (Some r) = r"

text \<open>\<^verbatim>\<open>d[k]\<close> on a value.\<close>

fun py_getitem :: "pyval \<Rightarrow> string \<Rightarrow> exn + pyval" where
  "py_getitem (VDict kvs) k =
     (case map_of kvs k of None \<Rightarrow> Inl (KeyError k) | Some v \<Rightarrow> Inr v)"
| "py_getitem _ k = Inl (TypeError ''object is not subscriptable'')"

section \<open>Calls made to the collaborators\<close>

text \<open>
  Every call that leaves the facade is recorded, with its arguments, in a log that only
  the model keeps (what a test double's call list records).
\<close>

datatype call =
    NewSnowflakeConfig string
  | NewComplianceManager
  | NewDelekOrchestrator
  | ValidateRequest string user_context
  | ExecuteTask string user_context compliance_result
  | LogInteraction user_context string pyval string
  | TestConnection
  | TestCortexAI
  | ComplianceHealthCheck
  | TestContainers

fun is_execute_task :: "call \<Rightarrow> bool" where
  "is_execute_task (ExecuteTask _ _ _) = True"
| "is_execute_task _ = False"

fun is_log_interaction :: "call \<Rightarrow> bool" where
  "is_log_interaction (LogInteraction _ _ _ _) = True"
| "is_log_interaction _ = False"

fun is_compliant_log :: "call \<Rightarrow> bool" where
  "is_compliant_log (LogInteraction _ _ _ st) = (st = ''COMPLIANT'')"
| "is_compliant_log _ = False"

section \<open>Computations that may raise\<close>

type_synonym ('a, 's) prog = "'s \<Rightarrow> (exn + 'a) \<times> 's"

definition ret :: "'a \<Rightarrow> ('a, 's) prog" where
  "ret x = (\<lambda>s. (Inr x, s))"

definition throw :: "exn \<Rightarrow> ('a, 's) prog" where
  "throw e = (\<lambda>s. (Inl e, s))"

definition bindE :: "('a, 's) prog \<Rightarrow> ('a \<Rightarrow> ('b, 's) prog) \<Rightarrow> ('b, 's) prog" where
  "bindE m f = (\<lambda>s. case m s of (Inl e, s') \<Rightarrow> (Inl e, s') | (Inr x, s') \<Rightarrow> f x s')"

text \<open>\<^verbatim>\<open>try: m  except Exception as e: h e\<close>\<close>

definition try_except :: "('a, 's) prog \<Rightarrow> (exn \<Rightarrow> ('a, 's) prog) \<Rightarrow> ('a, 's) prog" where
  "try_except m h = (\<lambda>s. case m s of (Inl e, s') \<Rightarrow> h e s' | (Inr x, s') \<Rightarrow> (Inr x, s'))"

section \<open>The collaborators\<close>

text \<open>
  Modelled from the spec: \<^verbatim>\<open>SnowflakeConfig\<close>, \<^verbatim>\<open>ComplianceManager\<close> and
  \<^verbatim>\<open>DelekOrchestrator\<close> are imported by \<^verbatim>\<open>main.py\<close> but defined nowhere in the
  repository.  Each is an object whose methods act on a world \<open>'w\<close> of their own and
  either return or raise; the probes return booleans.
\<close>

record 'w snowflake_config =
  test_connection :: "'w \<Rightarrow> (exn + bool) \<times> 'w"

record 'w compliance_manager_obj =
  validate_request :: "string \<Rightarrow> user_context \<Rightarrow> 'w \<Rightarrow> (exn + compliance_result) \<times> 'w"
  log_interaction :: "user_context \<Rightarrow> string \<Rightarrow> pyval \<Rightarrow> string \<Rightarrow> 'w \<Rightarrow> (exn + unit) \<times> 'w"
  cm_health_check :: "'w \<Rightarrow> (exn + bool) \<times> 'w"

record 'w delek_orchestrator =
  execute_task :: "string \<Rightarrow> user_context \<Rightarrow> compliance_result \<Rightarrow> 'w \<Rightarrow> (exn + pyval) \<times> 'w"
  test_cortex_ai :: "'w \<Rightarrow> (exn + bool) \<times> 'w"
  test_containers :: "'w \<Rightarrow> (exn + bool) \<times> 'w"

section \<open>The global names of the module\<close>

text \<open>
  The functions of \<^verbatim>\<open>main.py\<close> look five global names up when they run: the three
  collaborator classes, bound by the imports of lines 76 to 78, and \<^verbatim>\<open>uuid\<close> and
  \<^verbatim>\<open>datetime\<close>, which only lines 228 and 229 bind, under
  \<^verbatim>\<open>if __name__ == "__main__":\<close>, both with a plain \<^verbatim>\<open>import\<close> of the module.
\<close>

datatype 'w uuid_binding =
    UuidUnbound
  | UuidModule "'w \<Rightarrow> string \<times> 'w"

datatype 'w datetime_binding =
    DatetimeUnbound
  | DatetimeModule
  | DatetimeClass "'w \<Rightarrow> string \<times> 'w"

record 'w module_globals =
  SnowflakeConfig :: "string \<Rightarrow> 'w \<Rightarrow> (exn + 'w snowflake_config) \<times> 'w"
  ComplianceManager :: "'w snowflake_config \<Rightarrow> 'w \<Rightarrow> (exn + 'w compliance_manager_obj) \<times> 'w"
  DelekOrchestrator ::
    "'w snowflake_config \<Rightarrow> 'w compliance_manager_obj \<Rightarrow> 'w \<Rightarrow> (exn + 'w delek_orchestrator) \<times> 'w"
  uuid :: "'w uuid_binding"
  datetime :: "'w datetime_binding"

text \<open>
  The two namespaces that loading \<^verbatim>\<open>main.py\<close> produces.  Run as a script, lines 228
  and 229 have bound both names to the standard modules (\<open>uuid4\<close> is what
  \<^verbatim>\<open>str(uuid.uuid4())\<close> yields); imported, as \<^verbatim>\<open>tests/unit/test_main.py\<close> does
  with \<^verbatim>\<open>from main import OpenDelek\<close>, neither name is bound.
\<close>

definition script_globals ::
  "(string \<Rightarrow> 'w \<Rightarrow> (exn + 'w snowflake_config) \<times> 'w) \<Rightarrow>
   ('w snowflake_config \<Rightarrow> 'w \<Rightarrow> (exn + 'w compliance_manager_obj) \<times> 'w) \<Rightarrow>
   ('w snowflake_config \<Rightarrow> 'w compliance_manager_obj \<Rightarrow> 'w \<Rightarrow> (exn + 'w delek_orchestrator) \<times> 'w) \<Rightarrow>
   ('w \<Rightarrow> string \<times> 'w) \<Rightarrow> 'w module_globals" where
  "script_globals sc cm orc uuid4 =
     \<lparr>SnowflakeConfig = sc, ComplianceManager = cm, DelekOrchestrator = orc,
      uuid = UuidModule uuid4, datetime = DatetimeModule\<rparr>"

definition imported_globals ::
  "(string \<Rightarrow> 'w \<Rightarrow> (exn + 'w snowflake_config) \<times> 'w) \<Rightarrow>
   ('w snowflake_config \<Rightarrow> 'w \<Rightarrow> (exn + 'w compliance_manager_obj) \<times> 'w) \<Rightarrow>
   ('w snowflake_config \<Rightarrow> 'w compliance_manager_obj \<Rightarrow> 'w \<Rightarrow> (exn + 'w delek_orchestrator) \<times> 'w) \<Rightarrow>
   'w module_globals" where
  "imported_globals sc cm orc =
     \<lparr>SnowflakeConfig = sc, ComplianceManager = cm, DelekOrchestrator = orc,
      uuid = UuidUnbound, datetime = DatetimeUnbound\<rparr>"

section \<open>State\<close>

text \<open>
  The environment holds the call log and the collaborators' world; the heap adds the
  facade object \<^verbatim>\<open>self\<close> with its three fields.
\<close>

record 'w env =
  trace :: "call list"
  world :: 'w

record 'w OpenDelek =
  config :: "'w snowflake_config"
  compliance_manager :: "'w compliance_manager_obj"
  orchestrator :: "'w delek_orchestrator"

record 'w heap = "'w env" +
  self :: "'w OpenDelek"

text \<open>A call to a collaborator: logged, then run on the world.\<close>

definition invoke ::
  "call \<Rightarrow> ('w \<Rightarrow> (exn + 'a) \<times> 'w) \<Rightarrow> ('a, ('w, 'z) env_scheme) prog" where
  "invoke c f = (\<lambda>s. case f (world s) of
      (r, w') \<Rightarrow> (r, s\<lparr>trace := trace s @ [c], world := w'\<rparr>))"

text \<open>\<^verbatim>\<open>str(uuid.uuid4())\<close>: the global \<^verbatim>\<open>uuid\<close> is looked up first.\<close>

definition new_error_id :: "'w module_globals \<Rightarrow> (string, ('w, 'z) env_scheme) prog" where
  "new_error_id g = (case uuid g of
      UuidUnbound \<Rightarrow> throw (NameError ''uuid'')
    | UuidModule uuid4 \<Rightarrow> (\<lambda>s. case uuid4 (world s) of (u, w') \<Rightarrow> (Inr u, s\<lparr>world := w'\<rparr>)))"

text \<open>
  \<^verbatim>\<open>datetime.now().isoformat()\<close>: the global \<^verbatim>\<open>datetime\<close> is looked up, then its
  attribute \<^verbatim>\<open>now\<close>; the module \<^verbatim>\<open>datetime\<close> has no such attribute (the class
  \<^verbatim>\<open>datetime.datetime\<close> has).
\<close>

definition now_isoformat :: "'w module_globals \<Rightarrow> (string, ('w, 'z) env_scheme) prog" where
  "now_isoformat g = (case datetime g of
      DatetimeUnbound \<Rightarrow> throw (NameError ''datetime'')
    | DatetimeModule \<Rightarrow> throw (AttributeError ''module datetime has no attribute now'')
    | DatetimeClass clock \<Rightarrow> (\<lambda>s. case clock (world s) of (t, w') \<Rightarrow> (Inr t, s\<lparr>world := w'\<rparr>)))"

section \<open>The facade\<close>

definition default_config_path :: string where
  "default_config_path = ''config/snowflake_config.toml''"

text \<open>\<^verbatim>\<open>OpenDelek.__init__\<close>: the handler logs and raises the exception again.\<close>

definition OpenDelek_init :: "'w module_globals \<Rightarrow> string \<Rightarrow> ('w OpenDelek, 'w env) prog" where
  "OpenDelek_init g config_path =
     try_except
       (bindE (invoke (NewSnowflakeConfig config_path) (SnowflakeConfig g config_path)) (\<lambda>c.
        bindE (invoke NewComplianceManager (ComplianceManager g c)) (\<lambda>m.
        bindE (invoke NewDelekOrchestrator (DelekOrchestrator g c m)) (\<lambda>orc.
        ret \<lparr>config = c, compliance_manager = m, orchestrator = orc\<rparr>))))
       (\<lambda>e. throw e)"

text \<open>An attribute of \<^verbatim>\<open>self\<close> is read when the statement runs.\<close>

definition with_self :: "('w OpenDelek \<Rightarrow> ('a, 'w heap) prog) \<Rightarrow> ('a, 'w heap) prog" where
  "with_self f = (\<lambda>s. f (self s) s)"

text \<open>\<^verbatim>\<open>OpenDelek.process_request\<close>, with the two records its \<^verbatim>\<open>return\<close>s build.\<close>

definition rejection_record :: "compliance_result \<Rightarrow> pyval" where
  "rejection_record cr = VDict
     [(''status'', VStr ''rejected''),
      (''message'', VStr (''Request violates corporate policy: '' @ format_reason (reason cr))),
      (''compliance_status'', VStr ''NON_COMPLIANT'')]"

definition error_record :: "string \<Rightarrow> pyval" where
  "error_record u = VDict
     [(''status'', VStr ''error''),
      (''message'', VStr ''An error occurred processing your request''),
      (''error_id'', VStr u)]"

definition process_request ::
  "'w module_globals \<Rightarrow> string \<Rightarrow> user_context \<Rightarrow> (pyval, 'w heap) prog" where
  "process_request g user_input user_ctx =
     try_except
       (bindE (with_self (\<lambda>slf. invoke (ValidateRequest user_input user_ctx)
                  (validate_request (compliance_manager slf) user_input user_ctx)))
          (\<lambda>compliance_res.
             if \<not> is_compliant compliance_res then ret (rejection_record compliance_res)
             else
               bindE (with_self (\<lambda>slf. invoke (ExecuteTask user_input user_ctx compliance_res)
                         (execute_task (orchestrator slf) user_input user_ctx compliance_res)))
                 (\<lambda>result.
                    bindE (with_self (\<lambda>slf.
                             invoke (LogInteraction user_ctx user_input result ''COMPLIANT'')
                               (log_interaction (compliance_manager slf)
                                  user_ctx user_input result ''COMPLIANT'')))
                      (\<lambda>_. ret result))))
       (\<lambda>e. bindE (new_error_id g) (\<lambda>u. ret (error_record u)))"

text \<open>
  \<^verbatim>\<open>OpenDelek.health_check\<close>: the dict display evaluates its values from left to
  right, the four probes and then the timestamp; the status is the literal
  \<^verbatim>\<open>"healthy"\<close>.
\<close>

definition health_check :: "'w module_globals \<Rightarrow> (pyval, 'w heap) prog" where
  "health_check g =
     bindE (with_self (\<lambda>slf. invoke TestConnection (test_connection (config slf)))) (\<lambda>a.
     bindE (with_self (\<lambda>slf. invoke TestCortexAI (test_cortex_ai (orchestrator slf)))) (\<lambda>b.
     bindE (with_self (\<lambda>slf. invoke ComplianceHealthCheck
                                 (cm_health_check (compliance_manager slf)))) (\<lambda>c.
     bindE (with_self (\<lambda>slf. invoke TestContainers (test_containers (orchestrator slf)))) (\<lambda>d.
     bindE (now_isoformat g) (\<lambda>ts.
     ret (VDict
       [(''status'', VStr ''healthy''),
        (''components'', VDict
           [(''snowflake_connection'', VBool a),
            (''cortex_ai'', VBool b),
            (''compliance_system'', VBool c),
            (''container_services'', VBool d)]),
        (''timestamp'', VStr ts)]))))))"

section \<open>The entry point\<close>

text \<open>A method call on a facade held in a local variable.\<close>

definition on_object :: "'w OpenDelek \<Rightarrow> ('a, 'w heap) prog \<Rightarrow> ('a, 'w env) prog" where
  "on_object obj m = (\<lambda>e. case m \<lparr>trace = trace e, world = world e, self = obj\<rparr> of
      (r, h) \<Rightarrow> (r, \<lparr>trace = trace h, world = world h\<rparr>))"

text \<open>\<^verbatim>\<open>main\<close>; its value is the process's exit code (\<^verbatim>\<open>sys.exit(main())\<close>).\<close>

definition main :: "'w module_globals \<Rightarrow> (int, 'w env) prog" where
  "main g =
     try_except
       (bindE (OpenDelek_init g default_config_path) (\<lambda>delek.
        bindE (on_object delek (health_check g)) (\<lambda>health.
        bindE (\<lambda>e. (py_getitem health ''status'', e)) (\<lambda>st.
        if st \<noteq> VStr ''healthy'' then ret 1 else ret 0))))
       (\<lambda>e. ret 1)"

section \<open>Observing a run\<close>

text \<open>The calls a run added to the log.\<close>

definition calls_since :: "('w, 'y) env_scheme \<Rightarrow> ('w, 'z) env_scheme \<Rightarrow> call list" where
  "calls_since s s' = drop (length (trace s)) (trace s')"

section \<open>Test doubles and the scenarios of the specification\<close>

text \<open>
  Collaborators whose methods return or raise a fixed outcome, as the
  \<^verbatim>\<open>Mock(return_value=...)\<close> objects of \<^verbatim>\<open>tests/unit/test_main.py\<close> do.
\<close>

definition mock_config :: "(exn + bool) \<Rightarrow> 'w snowflake_config" where
  "mock_config t = \<lparr>test_connection = (\<lambda>w. (t, w))\<rparr>"

definition mock_compliance ::
  "(exn + compliance_result) \<Rightarrow> (exn + unit) \<Rightarrow> (exn + bool) \<Rightarrow> 'w compliance_manager_obj" where
  "mock_compliance v l h =
     \<lparr>validate_request = (\<lambda>_ _ w. (v, w)),
      log_interaction = (\<lambda>_ _ _ _ w. (l, w)),
      cm_health_check = (\<lambda>w. (h, w))\<rparr>"

definition mock_orchestrator ::
  "(exn + pyval) \<Rightarrow> (exn + bool) \<Rightarrow> (exn + bool) \<Rightarrow> 'w delek_orchestrator" where
  "mock_orchestrator x a c =
     \<lparr>execute_task = (\<lambda>_ _ _ w. (x, w)),
      test_cortex_ai = (\<lambda>w. (a, w)),
      test_containers = (\<lambda>w. (c, w))\<rparr>"

definition fresh_heap :: "'w OpenDelek \<Rightarrow> 'w \<Rightarrow> 'w heap" where
  "fresh_heap obj w = \<lparr>trace = [], world = w, self = obj\<rparr>"

definition fresh_env :: "'w \<Rightarrow> 'w env" where
  "fresh_env w = \<lparr>trace = [], world = w\<rparr>"

text \<open>Class objects whose constructors hand out the given doubles.\<close>

definition mock_imported_globals ::
  "'w snowflake_config \<Rightarrow> 'w compliance_manager_obj \<Rightarrow> 'w delek_orchestrator \<Rightarrow> 'w module_globals" where
  "mock_imported_globals c m orc =
     imported_globals (\<lambda>_ w. (Inr c, w)) (\<lambda>_ w. (Inr m, w)) (\<lambda>_ _ w. (Inr orc, w))"

definition mock_script_globals ::
  "'w snowflake_config \<Rightarrow> 'w compliance_manager_obj \<Rightarrow> 'w delek_orchestrator \<Rightarrow>
   ('w \<Rightarrow> string \<times> 'w) \<Rightarrow> 'w module_globals" where
  "mock_script_globals c m orc uuid4 =
     script_globals (\<lambda>_ w. (Inr c, w)) (\<lambda>_ w. (Inr m, w)) (\<lambda>_ _ w. (Inr orc, w)) uuid4"

text \<open>The concrete scenarios of section 8 of the specification.\<close>

definition scenario_input :: string where
  "scenario_input = ''list open invoices''"

definition scenario_context :: user_context where
  "scenario_context = [(''user_id'', VStr ''u1''), (''role'', VStr ''DELEK_USER'')]"

definition scenario_rejection :: compliance_result where
  "scenario_rejection = \<lparr>is_compliant = False, reason = Some ''contains restricted keyword''\<rparr>"

definition scenario_approval :: compliance_result where
  "scenario_approval = \<lparr>is_compliant = True, reason = None\<rparr>"

definition scenario_task_result :: pyval where
  "scenario_task_result =
     VDict [(''status'', VStr ''completed''), (''result'', VStr ''3 invoices found'')]"

definition rejecting_facade :: "unit OpenDelek" where
  "rejecting_facade =
     \<lparr>config = mock_config (Inr True),
      compliance_manager = mock_compliance (Inr scenario_rejection) (Inr ()) (Inr True),
      orchestrator = mock_orchestrator (Inr scenario_task_result) (Inr True) (Inr True)\<rparr>"

definition approving_facade :: "unit OpenDelek" where
  "approving_facade =
     \<lparr>config = mock_config (Inr True),
      compliance_manager = mock_compliance (Inr scenario_approval) (Inr ()) (Inr True),
      orchestrator = mock_orchestrator (Inr scenario_task_result) (Inr True) (Inr True)\<rparr>"

definition rejecting_heap :: "unit heap" where
  "rejecting_heap = fresh_heap rejecting_facade ()"

definition approving_heap :: "unit heap" where
  "approving_heap = fresh_heap approving_facade ()"

text \<open>The namespace of a test that imports the module and patches the three classes.\<close>

definition test_globals :: "unit OpenDelek \<Rightarrow> unit module_globals" where
  "test_globals obj =
     mock_imported_globals (config obj) (compliance_manager obj) (orchestrator obj)"

text \<open>Facades one of whose collaborators raises.\<close>

definition failing_orchestrator_facade :: "unit OpenDelek" where
  "failing_orchestrator_facade =
     \<lparr>config = mock_config (Inr True),
      compliance_manager = mock_compliance (Inr scenario_approval) (Inr ()) (Inr True),
      orchestrator = mock_orchestrator (Inl (Raised ''agent failed'')) (Inr True) (Inr True)\<rparr>"

definition failing_validation_facade :: "unit OpenDelek" where
  "failing_validation_facade =
     \<lparr>config = mock_config (Inr True),
      compliance_manager =
        mock_compliance (Inl (Raised ''policy store unreachable'')) (Inr ()) (Inr True),
      orchestrator = mock_orchestrator (Inr scenario_task_result) (Inr True) (Inr True)\<rparr>"

definition failing_audit_facade :: "unit OpenDelek" where
  "failing_audit_facade =
     \<lparr>config = mock_config (Inr True),
      compliance_manager =
        mock_compliance (Inr scenario_approval) (Inl (Raised ''audit table locked'')) (Inr True),
      orchestrator = mock_orchestrator (Inr scenario_task_result) (Inr True) (Inr True)\<rparr>"

definition failing_probe_facade :: "unit OpenDelek" where
  "failing_probe_facade =
     \<lparr>config = mock_config (Inr True),
      compliance_manager = mock_compliance (Inr scenario_approval) (Inr ()) (Inr True),
      orchestrator =
        mock_orchestrator (Inr scenario_task_result) (Inl (Raised ''cortex unreachable'')) (Inr True)\<rparr>"

text \<open>A facade one of whose probes reports a failure.\<close>

definition degraded_facade :: "unit OpenDelek" where
  "degraded_facade =
     \<lparr>config = mock_config (Inr False),
      compliance_manager = mock_compliance (Inr scenario_approval) (Inr ()) (Inr True),
      orchestrator = mock_orchestrator (Inr scenario_task_result) (Inr True) (Inr True)\<rparr>"

text \<open>
  A namespace in which \<^verbatim>\<open>datetime\<close> is the class (what
  \<^verbatim>\<open>from datetime import datetime\<close> at the top of the module would bind) and
  \<^verbatim>\<open>uuid\<close> the module; \<^verbatim>\<open>main.py\<close> builds no such namespace itself.
\<close>

definition patched_globals :: "unit OpenDelek \<Rightarrow> unit module_globals" where
  "patched_globals obj =
     \<lparr>SnowflakeConfig = (\<lambda>_ w. (Inr (config obj), w)),
      ComplianceManager = (\<lambda>_ w. (Inr (compliance_manager obj), w)),
      DelekOrchestrator = (\<lambda>_ _ w. (Inr (orchestrator obj), w)),
      uuid = UuidModule (\<lambda>w. (''3f2b8c1e-9d4a-4e6f-8a7b-1c2d3e4f5a6b'', w)),
      datetime = DatetimeClass (\<lambda>w. (''2025-01-01T00:00:00'', w))\<rparr>"

section \<open>Runs of \<open>process_request\<close>\<close>

lemmas prog_defs = ret_def throw_def bindE_def try_except_def invoke_def with_self_def

lemma calls_since_append:
  "trace s' = trace s @ cs \<Longrightarrow> calls_since s s' = cs"
  by (simp add: calls_since_def)

lemma process_request_noncompliant:
  assumes "validate_request (compliance_manager (self s)) ui uc (world s) = (Inr cr, w')"
    and "\<not> is_compliant cr"
  shows "process_request g ui uc s =
     (Inr (rejection_record cr), s\<lparr>trace := trace s @ [ValidateRequest ui uc], world := w'\<rparr>)"
  using assms by (simp add: process_request_def prog_defs)

lemma process_request_compliant:
  assumes "validate_request (compliance_manager (self s)) ui uc (world s) = (Inr cr, w1)"
    and "is_compliant cr"
    and "execute_task (orchestrator (self s)) ui uc cr w1 = (Inr res, w2)"
    and "log_interaction (compliance_manager (self s)) uc ui res ''COMPLIANT'' w2 = (Inr (), w3)"
  shows "process_request g ui uc s =
     (Inr res, s\<lparr>trace := trace s @ [ValidateRequest ui uc, ExecuteTask ui uc cr,
                                      LogInteraction uc ui res ''COMPLIANT''], world := w3\<rparr>)"
  using assms by (simp add: process_request_def prog_defs)

text \<open>
  C1.  When \<^verbatim>\<open>validate_request\<close> returns a result that is not compliant,
  \<^verbatim>\<open>process_request\<close> returns a record whose status is \<^verbatim>\<open>"rejected"\<close>, and the
  calls of the run hold no call of \<^verbatim>\<open>execute_task\<close> and no call of
  \<^verbatim>\<open>log_interaction\<close> with status \<^verbatim>\<open>"COMPLIANT"\<close>.
\<close>

theorem rejected_request_never_reaches_orchestrator:
  assumes "validate_request (compliance_manager (self s)) ui uc (world s) = (Inr cr, w')"
    and "\<not> is_compliant cr"
  shows "case process_request g ui uc s of (r, s') \<Rightarrow>
           (\<exists>rec. r = Inr rec \<and> py_getitem rec ''status'' = Inr (VStr ''rejected''))
         \<and> filter is_execute_task (calls_since s s') = []
         \<and> filter is_compliant_log (calls_since s s') = []"
  using assms by (simp add: process_request_noncompliant rejection_record_def calls_since_append)

theorem rejected_request_never_reaches_orchestrator_witness:
  "validate_request (compliance_manager (self rejecting_heap)) scenario_input scenario_context
       (world rejecting_heap) = (Inr scenario_rejection, ())
   \<and> \<not> is_compliant scenario_rejection
   \<and> (case process_request (test_globals rejecting_facade) scenario_input scenario_context
             rejecting_heap of (r, s') \<Rightarrow>
           (\<exists>rec. r = Inr rec \<and> py_getitem rec ''status'' = Inr (VStr ''rejected''))
         \<and> filter is_execute_task (calls_since rejecting_heap s') = []
         \<and> filter is_compliant_log (calls_since rejecting_heap s') = [])"
proof -
  have v: "validate_request (compliance_manager (self rejecting_heap)) scenario_input
      scenario_context (world rejecting_heap) = (Inr scenario_rejection, ())"
    by (simp add: rejecting_heap_def rejecting_facade_def mock_compliance_def fresh_heap_def)
  have n: "\<not> is_compliant scenario_rejection"
    by (simp add: scenario_rejection_def)
  from v n rejected_request_never_reaches_orchestrator [OF v n] show ?thesis
    by simp
qed

text \<open>
  C2.  When \<^verbatim>\<open>validate_request\<close> returns a compliant result and neither
  \<^verbatim>\<open>execute_task\<close> nor \<^verbatim>\<open>log_interaction\<close> raises, the calls of the run are, in
  this order, the validation, one \<^verbatim>\<open>execute_task\<close> with the caller's input and
  context, and one \<^verbatim>\<open>log_interaction\<close> with the same context and input, the task
  result and status \<^verbatim>\<open>"COMPLIANT"\<close>; the task result is returned as it is.
\<close>

theorem compliant_request_runs_task_then_audits:
  assumes "validate_request (compliance_manager (self s)) ui uc (world s) = (Inr cr, w1)"
    and "is_compliant cr"
    and "execute_task (orchestrator (self s)) ui uc cr w1 = (Inr res, w2)"
    and "log_interaction (compliance_manager (self s)) uc ui res ''COMPLIANT'' w2 = (Inr (), w3)"
  shows "case process_request g ui uc s of (r, s') \<Rightarrow>
           r = Inr res
         \<and> calls_since s s' = [ValidateRequest ui uc, ExecuteTask ui uc cr,
                                LogInteraction uc ui res ''COMPLIANT'']
         \<and> filter is_execute_task (calls_since s s') = [ExecuteTask ui uc cr]
         \<and> filter is_log_interaction (calls_since s s') = [LogInteraction uc ui res ''COMPLIANT'']
         \<and> world s' = w3"
  using assms by (simp add: process_request_compliant calls_since_append)

theorem compliant_request_runs_task_then_audits_witness:
  "validate_request (compliance_manager (self approving_heap)) scenario_input scenario_context
       (world approving_heap) = (Inr scenario_approval, ())
   \<and> is_compliant scenario_approval
   \<and> execute_task (orchestrator (self approving_heap)) scenario_input scenario_context
       scenario_approval () = (Inr scenario_task_result, ())
   \<and> log_interaction (compliance_manager (self approving_heap)) scenario_context scenario_input
       scenario_task_result ''COMPLIANT'' () = (Inr (), ())
   \<and> (case process_request (test_globals approving_facade) scenario_input scenario_context
             approving_heap of (r, s') \<Rightarrow>
           r = Inr scenario_task_result
         \<and> calls_since approving_heap s' =
             [ValidateRequest scenario_input scenario_context,
              ExecuteTask scenario_input scenario_context scenario_approval,
              LogInteraction scenario_context scenario_input scenario_task_result ''COMPLIANT'']
         \<and> filter is_execute_task (calls_since approving_heap s') =
             [ExecuteTask scenario_input scenario_context scenario_approval]
         \<and> filter is_log_interaction (calls_since approving_heap s') =
             [LogInteraction scenario_context scenario_input scenario_task_result ''COMPLIANT'']
         \<and> world s' = ())"
proof -
  have v: "validate_request (compliance_manager (self approving_heap)) scenario_input
      scenario_context (world approving_heap) = (Inr scenario_approval, ())"
    by (simp add: approving_heap_def approving_facade_def mock_compliance_def fresh_heap_def)
  have c: "is_compliant scenario_approval"
    by (simp add: scenario_approval_def)
  have x: "execute_task (orchestrator (self approving_heap)) scenario_input scenario_context
      scenario_approval () = (Inr scenario_task_result, ())"
    by (simp add: approving_heap_def approving_facade_def mock_orchestrator_def fresh_heap_def)
  have l: "log_interaction (compliance_manager (self approving_heap)) scenario_context
      scenario_input scenario_task_result ''COMPLIANT'' () = (Inr (), ())"
    by (simp add: approving_heap_def approving_facade_def mock_compliance_def fresh_heap_def)
  from v c x l compliant_request_runs_task_then_audits [OF v c x l] show ?thesis
    by simp
qed

text \<open>
  C3.  When \<^verbatim>\<open>validate_request\<close> returns a result that is not compliant and whose
  reason is the string \<open>r\<close>, the record returned has exactly the three entries status
  \<^verbatim>\<open>"rejected"\<close>, message \<^verbatim>\<open>"Request violates corporate policy: "\<close> followed by
  \<open>r\<close>, and compliance status \<^verbatim>\<open>"NON_COMPLIANT"\<close>.  The witness is the scenario of the
  specification, with reason \<^verbatim>\<open>"contains restricted keyword"\<close>.
\<close>

theorem rejection_record_contents:
  assumes "validate_request (compliance_manager (self s)) ui uc (world s) = (Inr cr, w')"
    and "\<not> is_compliant cr"
    and "reason cr = Some r"
  shows "fst (process_request g ui uc s) = Inr (VDict
     [(''status'', VStr ''rejected''),
      (''message'', VStr (''Request violates corporate policy: '' @ r)),
      (''compliance_status'', VStr ''NON_COMPLIANT'')])"
  using assms by (simp add: process_request_noncompliant rejection_record_def)

theorem rejection_record_contents_witness:
  "validate_request (compliance_manager (self rejecting_heap)) ''list open invoices''
       [(''user_id'', VStr ''u1''), (''role'', VStr ''DELEK_USER'')] (world rejecting_heap) =
     (Inr \<lparr>is_compliant = False, reason = Some ''contains restricted keyword''\<rparr>, ())
   \<and> \<not> is_compliant \<lparr>is_compliant = False, reason = Some ''contains restricted keyword''\<rparr>
   \<and> reason \<lparr>is_compliant = False, reason = Some ''contains restricted keyword''\<rparr> =
       Some ''contains restricted keyword''
   \<and> fst (process_request (test_globals rejecting_facade) ''list open invoices''
          [(''user_id'', VStr ''u1''), (''role'', VStr ''DELEK_USER'')] rejecting_heap) =
       Inr (VDict
         [(''status'', VStr ''rejected''),
          (''message'', VStr ''Request violates corporate policy: contains restricted keyword''),
          (''compliance_status'', VStr ''NON_COMPLIANT'')])"
proof -
  let ?cr = "\<lparr>is_compliant = False, reason = Some ''contains restricted keyword''\<rparr>"
  have v: "validate_request (compliance_manager (self rejecting_heap)) ''list open invoices''
       [(''user_id'', VStr ''u1''), (''role'', VStr ''DELEK_USER'')] (world rejecting_heap) =
     (Inr ?cr, ())"
    by (simp add: rejecting_heap_def rejecting_facade_def mock_compliance_def fresh_heap_def
        scenario_rejection_def)
  have n: "\<not> is_compliant ?cr" by simp
  have r: "reason ?cr = Some ''contains restricted keyword''" by simp
  from v n r rejection_record_contents [OF v n r, of "test_globals rejecting_facade"]
  show ?thesis by simp
qed

section \<open>The exception handler of \<open>process_request\<close>\<close>

text \<open>
  Whichever collaborator raises, the run continues in the handler of lines 165 to 171,
  which builds the error record around \<^verbatim>\<open>str(uuid.uuid4())\<close>.
\<close>

lemma process_request_validate_raises:
  assumes "validate_request (compliance_manager (self s)) ui uc (world s) = (Inl e, w1)"
  shows "process_request g ui uc s =
     bindE (new_error_id g) (\<lambda>u. ret (error_record u))
       (s\<lparr>trace := trace s @ [ValidateRequest ui uc], world := w1\<rparr>)"
  using assms by (simp add: process_request_def prog_defs)

lemma process_request_execute_raises:
  assumes "validate_request (compliance_manager (self s)) ui uc (world s) = (Inr cr, w1)"
    and "is_compliant cr"
    and "execute_task (orchestrator (self s)) ui uc cr w1 = (Inl e, w2)"
  shows "process_request g ui uc s =
     bindE (new_error_id g) (\<lambda>u. ret (error_record u))
       (s\<lparr>trace := trace s @ [ValidateRequest ui uc, ExecuteTask ui uc cr], world := w2\<rparr>)"
  using assms by (simp add: process_request_def prog_defs)

lemma process_request_log_raises:
  assumes "validate_request (compliance_manager (self s)) ui uc (world s) = (Inr cr, w1)"
    and "is_compliant cr"
    and "execute_task (orchestrator (self s)) ui uc cr w1 = (Inr res, w2)"
    and "log_interaction (compliance_manager (self s)) uc ui res ''COMPLIANT'' w2 = (Inl e, w3)"
  shows "process_request g ui uc s =
     bindE (new_error_id g) (\<lambda>u. ret (error_record u))
       (s\<lparr>trace := trace s @ [ValidateRequest ui uc, ExecuteTask ui uc cr,
                               LogInteraction uc ui res ''COMPLIANT''], world := w3\<rparr>)"
  using assms by (simp add: process_request_def prog_defs)

text \<open>With \<^verbatim>\<open>uuid\<close> bound the handler returns the error record.\<close>

lemma handler_uuid_bound:
  "uuid g = UuidModule uuid4 \<Longrightarrow> uuid4 (world s) = (u, w') \<Longrightarrow>
     bindE (new_error_id g) (\<lambda>u. ret (error_record u)) s =
       (Inr (error_record u), s\<lparr>world := w'\<rparr>)"
  by (simp add: new_error_id_def prog_defs)

lemma process_request_returns_when_uuid_bound:
  assumes "uuid g = UuidModule uuid4"
  shows "\<exists>rec. fst (process_request g ui uc s) = Inr rec"
  using assms
  by (simp add: process_request_def prog_defs new_error_id_def split: prod.splits sum.splits)

text \<open>With \<^verbatim>\<open>uuid\<close> unbound the handler itself raises.\<close>

lemma handler_uuid_unbound:
  "uuid g = UuidUnbound \<Longrightarrow>
     bindE (new_error_id g) (\<lambda>u. ret (error_record u)) s = (Inl (NameError ''uuid''), s)"
  by (simp add: new_error_id_def prog_defs)

lemma test_globals_uuid: "uuid (test_globals obj) = UuidUnbound"
  by (simp add: test_globals_def mock_imported_globals_def imported_globals_def)

lemma test_globals_datetime: "datetime (test_globals obj) = DatetimeUnbound"
  by (simp add: test_globals_def mock_imported_globals_def imported_globals_def)

text \<open>
  C4.  The claim is that a raising collaborator makes \<^verbatim>\<open>process_request\<close> return
  the error record with a fresh identifier and never lets an exception out.  In the
  imported module, with a compliant request whose \<^verbatim>\<open>execute_task\<close> raises, the
  handler raises \<^verbatim>\<open>NameError\<close> for the name \<^verbatim>\<open>uuid\<close>, and that exception
  reaches the caller.
\<close>

theorem orchestrator_failure_raises_NameError:
  "process_request (test_globals failing_orchestrator_facade) scenario_input scenario_context
      (fresh_heap failing_orchestrator_facade ()) =
   (Inl (NameError ''uuid''),
    \<lparr>trace = [ValidateRequest scenario_input scenario_context,
              ExecuteTask scenario_input scenario_context scenario_approval],
     world = (), self = failing_orchestrator_facade\<rparr>)"
  by (simp add: process_request_def prog_defs new_error_id_def test_globals_uuid
      failing_orchestrator_facade_def mock_compliance_def mock_orchestrator_def fresh_heap_def
      scenario_approval_def)

text \<open>
  C5.  The claim is that the caller of \<^verbatim>\<open>process_request\<close> always receives a
  record and that the function never raises.  In the imported module, when
  \<^verbatim>\<open>validate_request\<close> raises, the caller receives no record: the run ends in
  \<^verbatim>\<open>NameError\<close>.
\<close>

theorem validation_failure_yields_no_record:
  "\<not> (\<exists>rec. fst (process_request (test_globals failing_validation_facade) scenario_input
        scenario_context (fresh_heap failing_validation_facade ())) = Inr rec)
   \<and> fst (process_request (test_globals failing_validation_facade) scenario_input
        scenario_context (fresh_heap failing_validation_facade ())) = Inl (NameError ''uuid'')"
  by (simp add: process_request_def prog_defs new_error_id_def test_globals_uuid
      failing_validation_facade_def mock_compliance_def fresh_heap_def)

text \<open>
  C10.  The claim is that, when the task has run and \<^verbatim>\<open>log_interaction\<close> then
  raises, the caller receives the generic error record in place of the task result.  In
  the imported module the task result is lost as the claim says, but what the caller
  receives is \<^verbatim>\<open>NameError\<close>, not the error record.
\<close>

theorem audit_failure_raises_NameError:
  "process_request (test_globals failing_audit_facade) scenario_input scenario_context
      (fresh_heap failing_audit_facade ()) =
   (Inl (NameError ''uuid''),
    \<lparr>trace = [ValidateRequest scenario_input scenario_context,
              ExecuteTask scenario_input scenario_context scenario_approval,
              LogInteraction scenario_context scenario_input scenario_task_result ''COMPLIANT''],
     world = (), self = failing_audit_facade\<rparr>)"
  by (simp add: process_request_def prog_defs new_error_id_def test_globals_uuid
      failing_audit_facade_def mock_compliance_def mock_orchestrator_def fresh_heap_def
      scenario_approval_def)

section \<open>Runs of \<open>health_check\<close>\<close>

lemma health_check_probes_return:
  assumes "test_connection (config (self s)) (world s) = (Inr a, w1)"
    and "test_cortex_ai (orchestrator (self s)) w1 = (Inr b, w2)"
    and "cm_health_check (compliance_manager (self s)) w2 = (Inr c, w3)"
    and "test_containers (orchestrator (self s)) w3 = (Inr d, w4)"
  shows "health_check g s =
     bindE (now_isoformat g) (\<lambda>ts. ret (VDict
       [(''status'', VStr ''healthy''),
        (''components'', VDict
           [(''snowflake_connection'', VBool a),
            (''cortex_ai'', VBool b),
            (''compliance_system'', VBool c),
            (''container_services'', VBool d)]),
        (''timestamp'', VStr ts)]))
      (s\<lparr>trace := trace s @ [TestConnection, TestCortexAI, ComplianceHealthCheck, TestContainers],
         world := w4\<rparr>)"
  using assms by (simp add: health_check_def prog_defs)

text \<open>
  In both namespaces that the module builds, \<^verbatim>\<open>datetime.now()\<close> raises, so no run
  of \<^verbatim>\<open>health_check\<close> returns a record.
\<close>

lemma health_check_no_record_as_loaded:
  assumes "datetime g = DatetimeUnbound \<or> datetime g = DatetimeModule"
  shows "\<not> (\<exists>rec. fst (health_check g s) = Inr rec)"
  using assms
  by (auto simp add: health_check_def prog_defs now_isoformat_def split: prod.splits sum.splits)

lemma health_check_raises_as_script:
  "fst (health_check (mock_script_globals c m orc uuid4) approving_heap) =
     Inl (AttributeError ''module datetime has no attribute now'')"
  by (simp add: health_check_def prog_defs now_isoformat_def mock_script_globals_def
      script_globals_def approving_heap_def approving_facade_def mock_config_def
      mock_compliance_def mock_orchestrator_def fresh_heap_def)

text \<open>
  Where a record is returned at all, its status is the literal of line 176, whatever the
  probes reported.
\<close>

lemma health_check_status_literal:
  assumes "fst (health_check g s) = Inr rec"
  shows "py_getitem rec ''status'' = Inr (VStr ''healthy'')"
  using assms
  by (auto simp add: health_check_def prog_defs now_isoformat_def
      split: prod.splits sum.splits datetime_binding.splits)

lemma health_check_degraded_reports_healthy:
  "fst (health_check (patched_globals degraded_facade) (fresh_heap degraded_facade ())) =
     Inr (VDict
       [(''status'', VStr ''healthy''),
        (''components'', VDict
           [(''snowflake_connection'', VBool False),
            (''cortex_ai'', VBool True),
            (''compliance_system'', VBool True),
            (''container_services'', VBool True)]),
        (''timestamp'', VStr ''2025-01-01T00:00:00'')])"
  by (simp add: health_check_def prog_defs now_isoformat_def patched_globals_def
      degraded_facade_def mock_config_def mock_compliance_def mock_orchestrator_def
      fresh_heap_def)

text \<open>
  C6.  The claim is that \<^verbatim>\<open>health_check\<close>, when its four probes return booleans,
  returns a record with the four components, a timestamp and a status that is
  \<^verbatim>\<open>"healthy"\<close> exactly when all four succeeded.  In the setting of
  \<^verbatim>\<open>test_health_check\<close> (module imported, four probes returning
  \<^verbatim>\<open>True\<close>) the four probes are called and then the timestamp raises
  \<^verbatim>\<open>NameError\<close>: no record is returned.
\<close>

theorem health_check_raises_in_unit_test:
  "health_check (test_globals approving_facade) approving_heap =
     (Inl (NameError ''datetime''),
      \<lparr>trace = [TestConnection, TestCortexAI, ComplianceHealthCheck, TestContainers],
       world = (), self = approving_facade\<rparr>)"
  by (simp add: health_check_def prog_defs now_isoformat_def test_globals_datetime
      approving_heap_def approving_facade_def mock_config_def mock_compliance_def
      mock_orchestrator_def fresh_heap_def)

lemma health_check_first_probe_raises:
  assumes "test_connection (config (self s)) (world s) = (Inl e, w1)"
  shows "health_check g s = (Inl e, s\<lparr>trace := trace s @ [TestConnection], world := w1\<rparr>)"
  using assms by (simp add: health_check_def prog_defs)

lemma health_check_second_probe_raises:
  assumes "test_connection (config (self s)) (world s) = (Inr a, w1)"
    and "test_cortex_ai (orchestrator (self s)) w1 = (Inl e, w2)"
  shows "health_check g s =
     (Inl e, s\<lparr>trace := trace s @ [TestConnection, TestCortexAI], world := w2\<rparr>)"
  using assms by (simp add: health_check_def prog_defs)

lemma health_check_third_probe_raises:
  assumes "test_connection (config (self s)) (world s) = (Inr a, w1)"
    and "test_cortex_ai (orchestrator (self s)) w1 = (Inr b, w2)"
    and "cm_health_check (compliance_manager (self s)) w2 = (Inl e, w3)"
  shows "health_check g s =
     (Inl e, s\<lparr>trace := trace s @ [TestConnection, TestCortexAI, ComplianceHealthCheck],
               world := w3\<rparr>)"
  using assms by (simp add: health_check_def prog_defs)

lemma health_check_fourth_probe_raises:
  assumes "test_connection (config (self s)) (world s) = (Inr a, w1)"
    and "test_cortex_ai (orchestrator (self s)) w1 = (Inr b, w2)"
    and "cm_health_check (compliance_manager (self s)) w2 = (Inr c, w3)"
    and "test_containers (orchestrator (self s)) w3 = (Inl e, w4)"
  shows "health_check g s =
     (Inl e, s\<lparr>trace := trace s @ [TestConnection, TestCortexAI, ComplianceHealthCheck,
                               TestContainers], world := w4\<rparr>)"
  using assms by (simp add: health_check_def prog_defs)

text \<open>
  C7.  When one of the four probes raises (the probes before it, in the order of the dict
  display, having returned), \<^verbatim>\<open>health_check\<close> raises that same exception: nothing
  in it catches.
\<close>

theorem probe_exception_propagates:
  assumes "test_connection (config (self s)) (world s) = (Inl e, w1)
     \<or> (\<exists>a. test_connection (config (self s)) (world s) = (Inr a, w1)
          \<and> test_cortex_ai (orchestrator (self s)) w1 = (Inl e, w2))
     \<or> (\<exists>a b. test_connection (config (self s)) (world s) = (Inr a, w1)
          \<and> test_cortex_ai (orchestrator (self s)) w1 = (Inr b, w2)
          \<and> cm_health_check (compliance_manager (self s)) w2 = (Inl e, w3))
     \<or> (\<exists>a b c. test_connection (config (self s)) (world s) = (Inr a, w1)
          \<and> test_cortex_ai (orchestrator (self s)) w1 = (Inr b, w2)
          \<and> cm_health_check (compliance_manager (self s)) w2 = (Inr c, w3)
          \<and> test_containers (orchestrator (self s)) w3 = (Inl e, w4))"
  shows "fst (health_check g s) = Inl e"
proof -
  consider
      (first) "test_connection (config (self s)) (world s) = (Inl e, w1)"
    | (second) a where "test_connection (config (self s)) (world s) = (Inr a, w1)"
        "test_cortex_ai (orchestrator (self s)) w1 = (Inl e, w2)"
    | (third) a b where "test_connection (config (self s)) (world s) = (Inr a, w1)"
        "test_cortex_ai (orchestrator (self s)) w1 = (Inr b, w2)"
        "cm_health_check (compliance_manager (self s)) w2 = (Inl e, w3)"
    | (fourth) a b c where "test_connection (config (self s)) (world s) = (Inr a, w1)"
        "test_cortex_ai (orchestrator (self s)) w1 = (Inr b, w2)"
        "cm_health_check (compliance_manager (self s)) w2 = (Inr c, w3)"
        "test_containers (orchestrator (self s)) w3 = (Inl e, w4)"
    using assms by blast
  then show ?thesis
  proof cases
    case first
    then show ?thesis by (simp add: health_check_first_probe_raises)
  next
    case second
    then show ?thesis by (simp add: health_check_second_probe_raises)
  next
    case third
    then show ?thesis by (simp add: health_check_third_probe_raises)
  next
    case fourth
    then show ?thesis by (simp add: health_check_fourth_probe_raises)
  qed
qed

theorem probe_exception_propagates_witness:
  "test_connection (config (self (fresh_heap failing_probe_facade ())))
       (world (fresh_heap failing_probe_facade ())) = (Inr True, ())
   \<and> test_cortex_ai (orchestrator (self (fresh_heap failing_probe_facade ()))) () =
       (Inl (Raised ''cortex unreachable''), ())
   \<and> fst (health_check (test_globals failing_probe_facade) (fresh_heap failing_probe_facade ())) =
       Inl (Raised ''cortex unreachable'')"
proof -
  let ?s = "fresh_heap failing_probe_facade ()"
  have p1: "test_connection (config (self ?s)) (world ?s) = (Inr True, ())"
    by (simp add: failing_probe_facade_def fresh_heap_def mock_config_def)
  have p2: "test_cortex_ai (orchestrator (self ?s)) () = (Inl (Raised ''cortex unreachable''), ())"
    by (simp add: failing_probe_facade_def fresh_heap_def mock_orchestrator_def)
  from p1 p2 have h: "test_connection (config (self ?s)) (world ?s) =
        (Inl (Raised ''cortex unreachable''), ())
     \<or> (\<exists>a. test_connection (config (self ?s)) (world ?s) = (Inr a, ())
          \<and> test_cortex_ai (orchestrator (self ?s)) () = (Inl (Raised ''cortex unreachable''), ()))
     \<or> (\<exists>a b. test_connection (config (self ?s)) (world ?s) = (Inr a, ())
          \<and> test_cortex_ai (orchestrator (self ?s)) () = (Inr b, ())
          \<and> cm_health_check (compliance_manager (self ?s)) () =
              (Inl (Raised ''cortex unreachable''), ()))
     \<or> (\<exists>a b c. test_connection (config (self ?s)) (world ?s) = (Inr a, ())
          \<and> test_cortex_ai (orchestrator (self ?s)) () = (Inr b, ())
          \<and> cm_health_check (compliance_manager (self ?s)) () = (Inr c, ())
          \<and> test_containers (orchestrator (self ?s)) () =
              (Inl (Raised ''cortex unreachable''), ()))"
    by blast
  from p1 p2 probe_exception_propagates [OF h, of "test_globals failing_probe_facade"]
  show ?thesis by simp
qed

section \<open>Runs of \<open>main\<close>\<close>

lemma main_unfold:
  "main g e =
    (case OpenDelek_init g default_config_path e of
       (Inl x, e1) \<Rightarrow> (Inr 1, e1)
     | (Inr delek, e1) \<Rightarrow>
        (case on_object delek (health_check g) e1 of
           (Inl x, e2) \<Rightarrow> (Inr 1, e2)
         | (Inr health, e2) \<Rightarrow>
            (case py_getitem health ''status'' of
               Inl x \<Rightarrow> (Inr 1, e2)
             | Inr st \<Rightarrow> (Inr (if st = VStr ''healthy'' then 0 else 1), e2))))"
  by (simp add: main_def ret_def bindE_def try_except_def split: prod.splits sum.splits)

lemma on_object_health_check_no_record:
  assumes "datetime g = DatetimeUnbound \<or> datetime g = DatetimeModule"
  shows "on_object obj (health_check g) e \<noteq> (Inr rec, e2)"
  using assms
  by (auto simp add: on_object_def health_check_def prog_defs now_isoformat_def
      split: prod.splits sum.splits)

text \<open>
  In both namespaces that the module builds, \<^verbatim>\<open>health_check\<close> raises, so the exit
  code is 1 whatever the collaborators do.
\<close>

lemma exit_code_one_as_loaded:
  assumes "datetime g = DatetimeUnbound \<or> datetime g = DatetimeModule"
  shows "fst (main g e) = Inr 1"
  by (auto simp add: main_unfold on_object_health_check_no_record [OF assms]
      split: prod.splits sum.splits)

lemma OpenDelek_init_patched:
  "OpenDelek_init (patched_globals obj) p e =
     (Inr obj, e\<lparr>trace := trace e @ [NewSnowflakeConfig p, NewComplianceManager,
                                     NewDelekOrchestrator]\<rparr>)"
  by (simp add: OpenDelek_init_def prog_defs patched_globals_def)

lemma OpenDelek_init_test_globals:
  "OpenDelek_init (test_globals obj) p e =
     (Inr obj, e\<lparr>trace := trace e @ [NewSnowflakeConfig p, NewComplianceManager,
                                     NewDelekOrchestrator]\<rparr>)"
  by (simp add: OpenDelek_init_def prog_defs test_globals_def mock_imported_globals_def
      imported_globals_def)

lemma health_check_patched_approving:
  "on_object approving_facade (health_check (patched_globals approving_facade))
      \<lparr>trace = [NewSnowflakeConfig default_config_path, NewComplianceManager,
                NewDelekOrchestrator], world = ()\<rparr> =
     (Inr (VDict
       [(''status'', VStr ''healthy''),
        (''components'', VDict
           [(''snowflake_connection'', VBool True),
            (''cortex_ai'', VBool True),
            (''compliance_system'', VBool True),
            (''container_services'', VBool True)]),
        (''timestamp'', VStr ''2025-01-01T00:00:00'')]),
      \<lparr>trace = [NewSnowflakeConfig default_config_path, NewComplianceManager,
                NewDelekOrchestrator, TestConnection, TestCortexAI, ComplianceHealthCheck,
                TestContainers], world = ()\<rparr>)"
  by (simp add: on_object_def health_check_def prog_defs now_isoformat_def patched_globals_def
      approving_facade_def mock_config_def mock_compliance_def mock_orchestrator_def)

text \<open>
  C8.  \<^verbatim>\<open>main\<close> always returns an exit code; the code is 0 exactly when the
  construction of the facade returned, \<^verbatim>\<open>health_check\<close> on it returned a record, and
  the status of that record is \<^verbatim>\<open>"healthy"\<close>; in every other case, an exception in
  the construction or in the health check among them, it is 1.
\<close>

theorem main_exit_code:
  "fst (main g e) = Inr (if (\<exists>delek e1 health e2.
         OpenDelek_init g default_config_path e = (Inr delek, e1)
       \<and> on_object delek (health_check g) e1 = (Inr health, e2)
       \<and> py_getitem health ''status'' = Inr (VStr ''healthy'')) then 0 else 1)"
  by (auto simp add: main_unfold split: prod.splits sum.splits)

theorem main_exit_code_witness:
  "fst (main (patched_globals approving_facade) (fresh_env ())) = Inr 0
   \<and> fst (main (test_globals approving_facade) (fresh_env ())) = Inr 1"
proof -
  have i: "OpenDelek_init (patched_globals approving_facade) default_config_path (fresh_env ()) =
      (Inr approving_facade,
       \<lparr>trace = [NewSnowflakeConfig default_config_path, NewComplianceManager,
                 NewDelekOrchestrator], world = ()\<rparr>)"
    by (simp add: OpenDelek_init_patched fresh_env_def)
  have st: "py_getitem (VDict
       [(''status'', VStr ''healthy''),
        (''components'', VDict
           [(''snowflake_connection'', VBool True),
            (''cortex_ai'', VBool True),
            (''compliance_system'', VBool True),
            (''container_services'', VBool True)]),
        (''timestamp'', VStr ''2025-01-01T00:00:00'')]) ''status'' = Inr (VStr ''healthy'')"
    by simp
  from i health_check_patched_approving st have some: "\<exists>delek e1 health e2.
         OpenDelek_init (patched_globals approving_facade) default_config_path (fresh_env ()) =
           (Inr delek, e1)
       \<and> on_object delek (health_check (patched_globals approving_facade)) e1 = (Inr health, e2)
       \<and> py_getitem health ''status'' = Inr (VStr ''healthy'')"
    by blast
  have zero: "fst (main (patched_globals approving_facade) (fresh_env ())) = Inr 0"
    using main_exit_code [of "patched_globals approving_facade" "fresh_env ()"] some
    by (simp only: if_True)
  have none: "\<not> (\<exists>delek e1 health e2.
         OpenDelek_init (test_globals approving_facade) default_config_path (fresh_env ()) =
           (Inr delek, e1)
       \<and> on_object delek (health_check (test_globals approving_facade)) e1 = (Inr health, e2)
       \<and> py_getitem health ''status'' = Inr (VStr ''healthy''))"
    using on_object_health_check_no_record [of "test_globals approving_facade"]
    by (simp add: test_globals_datetime)
  have one: "fst (main (test_globals approving_facade) (fresh_env ())) = Inr 1"
    using main_exit_code [of "test_globals approving_facade" "fresh_env ()"] none
    by (simp only: if_False)
  from zero one show ?thesis by simp
qed

section \<open>The fields of the facade\<close>

lemma OpenDelek_init_returns:
  assumes "OpenDelek_init g p e = (Inr obj, e')"
  shows "\<exists>w1 w2. SnowflakeConfig g p (world e) = (Inr (config obj), w1)
       \<and> ComplianceManager g (config obj) w1 = (Inr (compliance_manager obj), w2)
       \<and> DelekOrchestrator g (config obj) (compliance_manager obj) w2 =
           (Inr (orchestrator obj), world e')
       \<and> trace e' = trace e @ [NewSnowflakeConfig p, NewComplianceManager, NewDelekOrchestrator]"
  using assms
  by (auto simp add: OpenDelek_init_def prog_defs split: prod.splits sum.splits)

lemma process_request_self: "self (snd (process_request g ui uc s)) = self s"
  by (simp add: process_request_def prog_defs new_error_id_def
      split: prod.splits sum.splits uuid_binding.splits)

lemma health_check_self: "self (snd (health_check g s)) = self s"
  by (simp add: health_check_def prog_defs now_isoformat_def
      split: prod.splits sum.splits datetime_binding.splits)

text \<open>
  C9.  A construction that returns has called each of the three constructors once, in
  order, and the three fields of the facade are what they returned; after any run of
  \<^verbatim>\<open>process_request\<close> or of \<^verbatim>\<open>health_check\<close>, returning or raising, the facade
  object is the one the run started with.
\<close>

theorem facade_fields_never_reassigned:
  "(OpenDelek_init g p e = (Inr obj, e') \<longrightarrow>
      (\<exists>w1 w2. SnowflakeConfig g p (world e) = (Inr (config obj), w1)
         \<and> ComplianceManager g (config obj) w1 = (Inr (compliance_manager obj), w2)
         \<and> DelekOrchestrator g (config obj) (compliance_manager obj) w2 =
             (Inr (orchestrator obj), world e')
         \<and> calls_since e e' = [NewSnowflakeConfig p, NewComplianceManager, NewDelekOrchestrator]))
   \<and> self (snd (process_request g ui uc s)) = self s
   \<and> self (snd (health_check g s)) = self s"
  using OpenDelek_init_returns [of g p e obj e']
  by (auto simp add: process_request_self health_check_self calls_since_append)

theorem facade_fields_never_reassigned_witness:
  "OpenDelek_init (test_globals approving_facade) default_config_path (fresh_env ()) =
      (Inr approving_facade,
       \<lparr>trace = [NewSnowflakeConfig default_config_path, NewComplianceManager,
                 NewDelekOrchestrator], world = ()\<rparr>)
   \<and> self (snd (process_request (test_globals approving_facade) scenario_input scenario_context
        approving_heap)) = approving_facade
   \<and> self (snd (health_check (test_globals approving_facade) approving_heap)) = approving_facade
   \<and> calls_since (fresh_env ())
        \<lparr>trace = [NewSnowflakeConfig default_config_path, NewComplianceManager,
                  NewDelekOrchestrator], world = ()\<rparr> =
       [NewSnowflakeConfig default_config_path, NewComplianceManager, NewDelekOrchestrator]"
proof -
  have i: "OpenDelek_init (test_globals approving_facade) default_config_path (fresh_env ()) =
      (Inr approving_facade,
       \<lparr>trace = [NewSnowflakeConfig default_config_path, NewComplianceManager,
                 NewDelekOrchestrator], world = ()\<rparr>)"
    by (simp add: OpenDelek_init_test_globals fresh_env_def)
  have s: "self approving_heap = approving_facade"
    by (simp add: approving_heap_def fresh_heap_def)
  from i s facade_fields_never_reassigned [of "test_globals approving_facade"
      default_config_path "fresh_env ()" approving_facade
      "\<lparr>trace = [NewSnowflakeConfig default_config_path, NewComplianceManager,
                 NewDelekOrchestrator], world = ()\<rparr>"
      scenario_input scenario_context approving_heap]
  show ?thesis by simp
qed

end
